theory Spec2Isabelle
  imports Main "HOL-Library.Sublist" "HOL-Library.List_Lexorder" "HOL-Library.Char_ord"
begin

section \<open>Python values used by \<open>litteraturkart/utils.py\<close>\<close>

text \<open>
  A Python \<open>str\<close> is a sequence of code points. It is modelled as a \<open>string\<close> whose
  characters are the code points 0..255 (Latin-1), so \<open>\<o>\<close> in \<open>Bj\<o>rnson\<close> is the single
  character \<open>CHR 0xF8\<close>. Exceptions are values: a function that can raise returns a sum
  whose left side is the exception.
\<close>

datatype py_error =
    Regex_error       \<comment> \<open>\<open>re.error\<close>: the pattern does not compile\<close>
  | Type_error        \<comment> \<open>\<open>TypeError\<close>: \<open>str.join\<close> over items that are not \<open>str\<close>\<close>
  | Attribute_error   \<comment> \<open>\<open>AttributeError\<close>: \<open>.str\<close> on a column that holds no strings\<close>
  | Value_error       \<comment> \<open>\<open>ValueError\<close>: \<open>str.split\<close> with an empty separator\<close>
  | Connection_error  \<comment> \<open>\<open>requests.exceptions.ConnectionError\<close>\<close>
  | Http_error        \<comment> \<open>\<open>requests.exceptions.HTTPError\<close>\<close>
  | Json_decode_error \<comment> \<open>\<open>requests.exceptions.JSONDecodeError\<close>\<close>

text \<open>
  The regular expressions of Python's \<open>re\<close> are modelled on a fragment only. A
  computation stops either because Python raises, or because the pattern leaves the
  fragment, in which case the model says nothing about what Python does.
\<close>

datatype stop = Raises py_error | Not_modelled

subsection \<open>\<open>str.join\<close>, \<open>str.replace\<close>, \<open>str.strip\<close>, \<open>str.split\<close>\<close>

fun join :: "string \<Rightarrow> string list \<Rightarrow> string" where
  "join sep [] = []"
| "join sep [x] = x"
| "join sep (x # y # ys) = x @ sep @ join sep (y # ys)"

text \<open>\<open>s.replace(old, new)\<close> for a one-character \<open>old\<close>, the only use in the source.\<close>

definition replace :: "char \<Rightarrow> string \<Rightarrow> string \<Rightarrow> string" where
  "replace old new s = concat (map (\<lambda>c. if c = old then new else [c]) s)"

text \<open>
  \<open>str.isspace\<close> on the code points below 256: tab, line feed, vertical tab, form feed,
  carriage return, the four separators 0x1C..0x1F, space, NEL (0x85) and the no-break
  space (0xA0).
\<close>

definition isspace :: "char \<Rightarrow> bool" where
  "isspace c = ((of_char c :: nat) \<in> set [9, 10, 11, 12, 13, 28, 29, 30, 31, 32, 133, 160])"

definition strip :: "string \<Rightarrow> string" where
  "strip s = rev (dropWhile isspace (rev (dropWhile isspace s)))"

text \<open>
  \<open>s.split(sep)\<close> for a non-empty \<open>sep\<close>: the occurrences of \<open>sep\<close> are found from the
  left and do not overlap; \<open>acc\<close> holds the current piece, reversed.
\<close>

function split_from :: "string \<Rightarrow> string \<Rightarrow> string \<Rightarrow> string list" where
  "split_from sep acc s =
     (if sep \<noteq> [] \<and> prefix sep s then rev acc # split_from sep [] (drop (length sep) s)
      else case s of [] \<Rightarrow> [rev acc] | c # cs \<Rightarrow> split_from sep (c # acc) cs)"
  by pat_completeness auto
termination
  by (relation "measure (\<lambda>(sep, acc, s). length s)") (auto simp: prefix_def)

definition str_split :: "string \<Rightarrow> string \<Rightarrow> py_error + string list" where
  "str_split s sep = (if sep = [] then Inl Value_error else Inr (split_from sep [] s))"

section \<open>The fragment of \<open>re\<close> behind \<open>Series.str.contains\<close>\<close>

text \<open>
  \<open>Series.str.contains(pat, regex=True)\<close> compiles \<open>pat\<close> once and then asks, for each
  string cell, whether the pattern matches somewhere in it. The fragment modelled here:
  an alternation (\<open>|\<close>) of sequences of literal characters, of \<open>.\<close> (any character but
  a line feed) and of a backslash followed by a character that is no ASCII letter or
  digit (that character, literally). Three ways in which compiling fails are modelled:
  a quantifier \<open>*\<close>, \<open>+\<close> or \<open>?\<close> at the start of an alternative (nothing to repeat),
  a \<open>[\<close> with no \<open>]\<close> after it (unterminated character set) and a backslash at the
  end of the pattern (bad escape). Every other use of a special character is outside
  the fragment.
\<close>

datatype atom = Lit char | Dot

definition ascii_alnum :: "char \<Rightarrow> bool" where
  "ascii_alnum c = (let n = (of_char c :: nat) in
     (48 \<le> n \<and> n \<le> 57) \<or> (65 \<le> n \<and> n \<le> 90) \<or> (97 \<le> n \<and> n \<le> 122))"

text \<open>\<open>cur\<close> is the alternative being read, reversed; \<open>alts\<close> the finished ones, reversed.\<close>

fun re_parse :: "string \<Rightarrow> atom list \<Rightarrow> atom list list \<Rightarrow> stop + atom list list" where
  "re_parse [] cur alts = Inr (rev (rev cur # alts))"
| "re_parse (c # cs) cur alts =
     (if c = CHR ''|'' then re_parse cs [] (rev cur # alts)
      else if c = CHR ''.'' then re_parse cs (Dot # cur) alts
      else if c = CHR 0x5C then
        (case cs of
           [] \<Rightarrow> Inl (Raises Regex_error)
         | d # ds \<Rightarrow> if ascii_alnum d then Inl Not_modelled else re_parse ds (Lit d # cur) alts)
      else if c \<in> set ''*+?'' then
        (if cur = [] then Inl (Raises Regex_error) else Inl Not_modelled)
      else if c = CHR ''['' then
        (if CHR '']'' \<in> set cs then Inl Not_modelled else Inl (Raises Regex_error))
      else if c \<in> set ''^${}]()'' then Inl Not_modelled
      else re_parse cs (Lit c # cur) alts)"

definition re_compile :: "string \<Rightarrow> stop + atom list list" where
  "re_compile pat = re_parse pat [] []"

fun atom_ok :: "atom \<Rightarrow> char \<Rightarrow> bool" where
  "atom_ok (Lit d) c = (c = d)"
| "atom_ok Dot c = (c \<noteq> CHR 0x0A)"

fun match_here :: "atom list \<Rightarrow> string \<Rightarrow> bool" where
  "match_here [] s = True"
| "match_here (a # as) [] = False"
| "match_here (a # as) (c # cs) = (atom_ok a c \<and> match_here as cs)"

fun match_anywhere :: "atom list \<Rightarrow> string \<Rightarrow> bool" where
  "match_anywhere as [] = match_here as []"
| "match_anywhere as (c # cs) = (match_here as (c # cs) \<or> match_anywhere as cs)"

definition re_search :: "atom list list \<Rightarrow> string \<Rightarrow> bool" where
  "re_search rx s = list_ex (\<lambda>alt. match_anywhere alt s) rx"

text \<open>
  A cell of a string column is a string or missing (\<open>None\<close>). \<open>str.contains\<close> answers
  with a mask whose entry for a missing cell is missing as well (\<open>NaN\<close> on an object
  column, \<open><NA>\<close> on an Arrow-backed one): the source passes no \<open>na=\<close> argument.
\<close>

definition str_contains :: "string option list \<Rightarrow> string \<Rightarrow> stop + bool option list" where
  "str_contains data pat =
     (case re_compile pat of
        Inl e \<Rightarrow> Inl e
      | Inr rx \<Rightarrow> Inr (map (map_option (re_search rx)) data))"

section \<open>\<open>bool_filter\<close>\<close>

text \<open>
  The columns \<open>bool_filter\<close> is applied to are the integer column \<open>dhlabid\<close> and string
  columns; the examples are \<open>None\<close> or a list of integers or of strings.
\<close>

datatype series = Str_series "string option list" | Int_series "int list"

datatype examples = Str_list "string list" | Int_list "int list"

text \<open>Truth value of the \<open>examples\<close> argument: \<open>None\<close> and the empty list are false.\<close>

fun truthy :: "examples option \<Rightarrow> bool" where
  "truthy None = False"
| "truthy (Some (Str_list xs)) = (xs \<noteq> [])"
| "truthy (Some (Int_list xs)) = (xs \<noteq> [])"

text \<open>\<open>"|".join(examples) if examples else ""\<close>: joining integers raises \<open>TypeError\<close>.\<close>

fun joined :: "examples option \<Rightarrow> py_error + string" where
  "joined None = Inr []"
| "joined (Some (Str_list xs)) = Inr (join ''|'' xs)"
| "joined (Some (Int_list xs)) = (if xs = [] then Inr [] else Inl Type_error)"

text \<open>
  \<open>data.isin(values)\<close>: exact membership, cell by cell. A missing cell is a member only
  of values that hold a missing cell; an integer is never equal to a string.
\<close>

fun isin :: "series \<Rightarrow> series \<Rightarrow> bool list" where
  "isin (Str_series d) (Str_series v) = map (\<lambda>c. c \<in> set v) d"
| "isin (Int_series d) (Int_series v) = map (\<lambda>c. c \<in> set v) d"
| "isin (Str_series d) (Int_series v) = map (\<lambda>c. False) d"
| "isin (Int_series d) (Str_series v) = map (\<lambda>c. False) d"

fun as_series :: "examples \<Rightarrow> series" where
  "as_series (Str_list xs) = Str_series (map Some xs)"
| "as_series (Int_list xs) = Int_series xs"

text \<open>
  With \<open>regex=False\<close> the source first tries \<open>examples.any()\<close>; a list and \<open>None\<close> have no
  such method, the \<open>AttributeError\<close> is caught and \<open>bool(examples)\<close> is taken.
\<close>

definition bool_filter :: "series \<Rightarrow> examples option \<Rightarrow> bool \<Rightarrow> stop + bool option list" where
  "bool_filter data examples regex =
     (if regex then
        (case joined examples of
           Inl e \<Rightarrow> Inl (Raises e)
         | Inr pat \<Rightarrow>
            (let regpat = replace (CHR '')'') [CHR 0x5C, CHR '')'']
                            (replace (CHR ''('') [CHR 0x5C, CHR ''(''] pat)
             in case data of
                  Int_series d \<Rightarrow> Inl (Raises Attribute_error)
                | Str_series d \<Rightarrow> str_contains d regpat))
      else
        (let examples_exist = truthy examples
         in Inr (map Some (isin data (if examples_exist then as_series (the examples) else data)))))"

section \<open>\<open>filtered_selection\<close>\<close>

text \<open>
  A row of the metadata table: the six columns \<open>filtered_selection\<close> reads; the other
  columns (\<open>urn\<close>, \<open>city\<close>, \<open>publisher\<close>, \<open>metatitle\<close>, ...) are the extension of the record.
  The table is the list of its rows.
\<close>

record row =
  dhlabid :: int
  title :: "string option"
  authors :: "string option"
  year :: int
  langs :: "string option"
  category :: "string option"

text \<open>
  \<open>&\<close> on masks: a missing entry stays missing unless the other side is \<open>False\<close>.
  \<open>meta_df[mask]\<close> keeps the rows whose entry is \<open>True\<close>; a missing entry selects
  nothing.
\<close>

fun and_na :: "bool option \<Rightarrow> bool option \<Rightarrow> bool option" where
  "and_na (Some False) b = Some False"
| "and_na a (Some False) = Some False"
| "and_na (Some True) (Some True) = Some True"
| "and_na a b = None"

definition mask_and :: "bool option list \<Rightarrow> bool option list \<Rightarrow> bool option list" where
  "mask_and xs ys = map2 and_na xs ys"

definition select :: "bool option list \<Rightarrow> 'a list \<Rightarrow> 'a list" where
  "select sel rows = map snd (filter (\<lambda>(m, r). m = Some True) (zip sel rows))"

text \<open>\<open>(from_year - 1 < meta_df["year"]) & (meta_df["year"] < to_year + 1)\<close>\<close>

definition period :: "int \<Rightarrow> int \<Rightarrow> int list \<Rightarrow> bool option list" where
  "period from_year to_year years =
     mask_and (map (\<lambda>y. Some (from_year - 1 < y)) years) (map (\<lambda>y. Some (y < to_year + 1)) years)"

definition filtered_selection ::
  "('a row_scheme) list \<Rightarrow> int list option \<Rightarrow> string list option \<Rightarrow> string list option \<Rightarrow>
   string list option \<Rightarrow> int \<Rightarrow> int \<Rightarrow> string list option \<Rightarrow> string list option \<Rightarrow>
   string list option \<Rightarrow> stop + ('a row_scheme) list" where
  "filtered_selection meta_df docids categories titles authors_sel from_year to_year languages
       publishers places =
     (case bool_filter (Int_series (map dhlabid meta_df)) (map_option Int_list docids) False of
        Inl e \<Rightarrow> Inl e
      | Inr doc_sel \<Rightarrow>
     (case bool_filter (Str_series (map category meta_df)) (map_option Str_list categories) True of
        Inl e \<Rightarrow> Inl e
      | Inr cat_sel \<Rightarrow>
     (case bool_filter (Str_series (map authors meta_df)) (map_option Str_list authors_sel) True of
        Inl e \<Rightarrow> Inl e
      | Inr auth_sel \<Rightarrow>
     (case bool_filter (Str_series (map title meta_df)) (map_option Str_list titles) False of
        Inl e \<Rightarrow> Inl e
      | Inr title_sel \<Rightarrow>
     (case bool_filter (Str_series (map langs meta_df)) (map_option Str_list languages) True of
        Inl e \<Rightarrow> Inl e
      | Inr lang_sel \<Rightarrow>
         (let selection =
                select (mask_and (mask_and (mask_and (mask_and (mask_and doc_sel cat_sel) auth_sel)
                          title_sel) lang_sel) (period from_year to_year (map year meta_df))) meta_df
          in Inr (if selection \<noteq> [] then selection else meta_df)))))))"

section \<open>\<open>extract_unique_values\<close>\<close>

text \<open>
  A cell of an arbitrary column: a string, a value that is no string (a number), or a
  missing value. \<open>data.unique()\<close> keeps the first occurrence of every value, in order.
\<close>

datatype cell = Str string | Num int | Missing

definition unique :: "'a list \<Rightarrow> 'a list" where
  "unique xs = rev (remdups (rev xs))"

text \<open>
  The comprehension
  \<open>{unit.strip() for item in data.unique() if isinstance(item, str)
      for unit in item.split(sep) if unit}\<close>,
  as the list of the values it produces: the test \<open>if unit\<close> is applied to the unit as
  split, and \<open>strip\<close> to the units that pass it.
\<close>

fun units :: "cell list \<Rightarrow> string \<Rightarrow> py_error + string list" where
  "units [] sep = Inr []"
| "units (Str item # items) sep =
     (case str_split item sep of
        Inl e \<Rightarrow> Inl e
      | Inr us \<Rightarrow>
         (case units items sep of
            Inl e \<Rightarrow> Inl e
          | Inr rest \<Rightarrow> Inr (map strip (filter (\<lambda>unit. unit \<noteq> []) us) @ rest)))"
| "units (item # items) sep = units items sep"

text \<open>\<open>sorted(list({...}))\<close>: the distinct values, in the order of their code points.\<close>

definition extract_unique_values :: "cell list \<Rightarrow> string \<Rightarrow> py_error + string list" where
  "extract_unique_values data sep =
     (case units (unique data) sep of
        Inl e \<Rightarrow> Inl e
      | Inr us \<Rightarrow> Inr (sort (remdups us)))"

section \<open>\<open>imag_corpus\<close> and \<open>geo_locations\<close>\<close>

text \<open>
  What the remote API does is an input of the model: the endpoint cannot be reached, or
  it answers with a status code and a body. The body is \<open>None\<close> when it is no JSON list
  of records. \<open>requests.get\<close> raises \<open>ConnectionError\<close> when the endpoint cannot be
  reached; \<open>raise_for_status\<close> raises \<open>HTTPError\<close> for the codes 400..599; \<open>res.json()\<close>
  raises \<open>JSONDecodeError\<close>. All three are subclasses of \<open>RequestException\<close>.
\<close>

record 'r response =
  status_code :: nat
  body :: "'r list option"

datatype 'r endpoint = Unreachable | Responds "'r response"

definition requests_get :: "'r endpoint \<Rightarrow> py_error + 'r response" where
  "requests_get ep = (case ep of Unreachable \<Rightarrow> Inl Connection_error | Responds res \<Rightarrow> Inr res)"

definition raise_for_status :: "'r response \<Rightarrow> py_error + unit" where
  "raise_for_status res =
     (if 400 \<le> status_code res \<and> status_code res < 600 then Inl Http_error else Inr ())"

definition json :: "'r response \<Rightarrow> py_error + 'r list" where
  "json res = (case body res of None \<Rightarrow> Inl Json_decode_error | Some rows \<Rightarrow> Inr rows)"

definition request_exception :: "py_error \<Rightarrow> bool" where
  "request_exception e = (e = Connection_error \<or> e = Http_error \<or> e = Json_decode_error)"

text \<open>\<open>imag_corpus\<close> has no \<open>try\<close>: it tests \<open>res.status_code == 200\<close>.\<close>

definition imag_corpus :: "'r endpoint \<Rightarrow> py_error + 'r list" where
  "imag_corpus api =
     (case requests_get api of
        Inl e \<Rightarrow> Inl e
      | Inr res \<Rightarrow>
         (if status_code res = 200 then json res else Inr []))"

text \<open>
  \<open>geo_locations\<close> calls \<open>requests.get\<close> before its \<open>try\<close>; the \<open>try\<close> holds
  \<open>raise_for_status\<close> and \<open>res.json()\<close>, and \<open>except RequestException\<close> gives the empty
  table.
\<close>

definition geo_locations :: "(int \<Rightarrow> 'r endpoint) \<Rightarrow> int \<Rightarrow> py_error + 'r list" where
  "geo_locations api docid =
     (case requests_get (api docid) of
        Inl e \<Rightarrow> Inl e
      | Inr res \<Rightarrow>
         (case (case raise_for_status res of Inl e \<Rightarrow> Inl e | Inr u \<Rightarrow> json res) of
            Inl e \<Rightarrow> if request_exception e then Inr [] else Inl e
          | Inr data \<Rightarrow> Inr data))"

section \<open>Notions used to state the properties\<close>

text \<open>
  A row passes when each of the six predicates of \<open>filtered_selection\<close>, computed for
  the row alone, is \<open>True\<close>.
\<close>

definition row_selected ::
  "int list option \<Rightarrow> string list option \<Rightarrow> string list option \<Rightarrow> string list option \<Rightarrow>
   int \<Rightarrow> int \<Rightarrow> string list option \<Rightarrow> 'a row_scheme \<Rightarrow> bool" where
  "row_selected docids categories titles authors_sel from_year to_year languages r =
     (bool_filter (Int_series [dhlabid r]) (map_option Int_list docids) False = Inr [Some True] \<and>
      bool_filter (Str_series [category r]) (map_option Str_list categories) True = Inr [Some True] \<and>
      bool_filter (Str_series [authors r]) (map_option Str_list authors_sel) True = Inr [Some True] \<and>
      bool_filter (Str_series [title r]) (map_option Str_list titles) False = Inr [Some True] \<and>
      bool_filter (Str_series [langs r]) (map_option Str_list languages) True = Inr [Some True] \<and>
      period from_year to_year [year r] = [Some True])"

text \<open>A criterion is absent when it is \<open>None\<close> or the empty list.\<close>

definition absent :: "'a list option \<Rightarrow> bool" where
  "absent examples = (examples = None \<or> examples = Some [])"

text \<open>
  A character is plain when it is none of the special characters of a regular
  expression other than the parentheses, which \<open>bool_filter\<close> escapes.
\<close>

definition plain :: "char \<Rightarrow> bool" where
  "plain c = (c \<notin> set ''.^$*+?{}[]|'' \<and> c \<noteq> CHR 0x5C)"

definition plain_values :: "string list \<Rightarrow> bool" where
  "plain_values xs = list_all (list_all plain) xs"

text \<open>The pattern \<open>bool_filter\<close> hands to \<open>str.contains\<close>, and what it does to one character.\<close>

definition esc :: "char \<Rightarrow> string" where
  "esc c = (if c = CHR ''('' then [CHR 0x5C, CHR ''('']
            else if c = CHR '')'' then [CHR 0x5C, CHR '')''] else [c])"

definition regpat_of :: "string list option \<Rightarrow> string" where
  "regpat_of examples =
     replace (CHR '')'') [CHR 0x5C, CHR '')'']
       (replace (CHR ''('') [CHR 0x5C, CHR ''('']
          (case examples of None \<Rightarrow> [] | Some xs \<Rightarrow> join ''|'' xs))"

section \<open>Auxiliary facts\<close>

declare re_parse.simps(2) [simp del]

declare split_from.simps [simp del]

subsection \<open>Masks and selection\<close>

lemma and_na_Some [simp]: "and_na (Some a) (Some b) = Some (a \<and> b)"
  by (cases a; cases b) simp_all

lemma and_na_True: "and_na a b = Some True \<longleftrightarrow> a = Some True \<and> b = Some True"
  by (cases "(a, b)" rule: and_na.cases) auto

lemma select_map: "select (map f rows) rows = filter (\<lambda>r. f r = Some True) rows"
  by (induction rows) (auto simp: select_def)

lemma mask_and_map: "mask_and (map f rows) (map g rows) = map (\<lambda>r. and_na (f r) (g r)) rows"
  by (simp add: mask_and_def zip_map_map zip_same_conv_map)

lemma period_eq:
  "period from_year to_year years = map (\<lambda>y. Some (from_year \<le> y \<and> y \<le> to_year)) years"
  by (simp add: period_def mask_and_def zip_map_map) (auto simp: zip_same_conv_map)

subsection \<open>\<open>str.split\<close> and \<open>str.strip\<close>\<close>

lemma split_from_Nil [simp]: "split_from sep acc [] = [rev acc]"
  by (simp add: split_from.simps)

lemma split_from_Cons [simp]:
  "split_from sep acc (c # cs) =
     (if sep \<noteq> [] \<and> prefix sep (c # cs)
      then rev acc # split_from sep [] (drop (length sep) (c # cs))
      else split_from sep (c # acc) cs)"
  by (subst split_from.simps) simp

lemma strip_Nil [simp]: "strip [] = []"
  by (simp add: strip_def)

lemma set_unique [simp]: "set (unique xs) = set xs"
  by (simp add: unique_def)

subsection \<open>The pattern of plain values\<close>

lemma plain_iff:
  "plain c \<longleftrightarrow> c \<noteq> CHR ''.'' \<and> c \<noteq> CHR ''^'' \<and> c \<noteq> CHR ''$'' \<and> c \<noteq> CHR ''*'' \<and>
     c \<noteq> CHR ''+'' \<and> c \<noteq> CHR ''?'' \<and> c \<noteq> CHR ''{'' \<and> c \<noteq> CHR ''}'' \<and> c \<noteq> CHR ''['' \<and>
     c \<noteq> CHR '']'' \<and> c \<noteq> CHR ''|'' \<and> c \<noteq> CHR 0x5C"
  by (simp add: plain_def)

lemma replace_parens:
  "replace (CHR '')'') [CHR 0x5C, CHR '')''] (replace (CHR ''('') [CHR 0x5C, CHR ''(''] s) =
     concat (map esc s)"
  by (induction s) (simp_all add: replace_def esc_def)

lemma regpat_of_absent: "absent examples \<Longrightarrow> regpat_of examples = []"
  by (auto simp: absent_def regpat_of_def replace_def)

lemma regpat_of_Some: "regpat_of (Some xs) = concat (map esc (join ''|'' xs))"
  by (simp add: regpat_of_def replace_parens)

lemma re_parse_literal:
  assumes "plain c" "c \<noteq> CHR ''(''" "c \<noteq> CHR '')''"
  shows "re_parse (c # rest) cur alts = re_parse rest (Lit c # cur) alts"
  using assms by (simp add: plain_iff re_parse.simps(2))

lemma re_parse_open:
  "re_parse (CHR 0x5C # CHR ''('' # rest) cur alts = re_parse rest (Lit (CHR ''('') # cur) alts"
  by (simp add: ascii_alnum_def re_parse.simps(2))

lemma re_parse_close:
  "re_parse (CHR 0x5C # CHR '')'' # rest) cur alts = re_parse rest (Lit (CHR '')'') # cur) alts"
  by (simp add: ascii_alnum_def re_parse.simps(2))

lemma re_parse_bar: "re_parse (CHR ''|'' # rest) cur alts = re_parse rest [] (rev cur # alts)"
  by (simp add: re_parse.simps(2))

lemma re_parse_esc:
  assumes "plain c"
  shows "re_parse (esc c @ rest) cur alts = re_parse rest (Lit c # cur) alts"
proof (cases "c = CHR ''('' \<or> c = CHR '')''")
  case True
  then show ?thesis
    by (auto simp: esc_def re_parse_open re_parse_close)
next
  case False
  then have "esc c = [c]" by (simp add: esc_def)
  then show ?thesis using False assms by (simp add: re_parse_literal)
qed

lemma re_parse_plain:
  "\<forall>c\<in>set s. plain c \<Longrightarrow>
     re_parse (concat (map esc s) @ rest) cur alts = re_parse rest (rev (map Lit s) @ cur) alts"
  by (induction s arbitrary: cur) (simp_all add: re_parse_esc)

lemma esc_bar: "esc (CHR ''|'') = [CHR ''|'']"
  by (simp add: esc_def)

lemma re_parse_join:
  "\<forall>x\<in>set (x # xs). \<forall>c\<in>set x. plain c \<Longrightarrow>
     re_parse (concat (map esc (join ''|'' (x # xs)))) [] alts =
       Inr (rev alts @ map (map Lit) (x # xs))"
proof (induction xs arbitrary: x alts)
  case Nil
  then show ?case using re_parse_plain[of x "[]" "[]" alts] by simp
next
  case (Cons y ys)
  have "re_parse (concat (map esc x) @ (CHR ''|'' # concat (map esc (join ''|'' (y # ys))))) [] alts
        = re_parse (CHR ''|'' # concat (map esc (join ''|'' (y # ys)))) (rev (map Lit x) @ []) alts"
    using Cons.prems by (intro re_parse_plain) simp
  also have "\<dots> = re_parse (concat (map esc (join ''|'' (y # ys)))) [] (map Lit x # alts)"
    by (simp add: re_parse_bar)
  also have "\<dots> = Inr (rev (map Lit x # alts) @ map (map Lit) (y # ys))"
    using Cons.prems by (intro Cons.IH) simp
  finally show ?case by (simp add: esc_bar)
qed

lemma re_compile_plain:
  assumes "xs \<noteq> []" and "plain_values xs"
  shows "re_compile (regpat_of (Some xs)) = Inr (map (map Lit) xs)"
proof -
  obtain y ys where xs: "xs = y # ys" using assms(1) by (cases xs) auto
  have "\<forall>x\<in>set (y # ys). \<forall>c\<in>set x. plain c"
    using assms(2) unfolding xs plain_values_def list_all_iff by simp
  then show ?thesis
    unfolding re_compile_def regpat_of_Some xs
    using re_parse_join[of y ys "[]"] by simp
qed

lemma re_compile_empty: "re_compile [] = Inr [[]]"
  by (simp add: re_compile_def)

subsection \<open>Searching for literal alternatives\<close>

lemma match_anywhere_Nil [simp]: "match_anywhere [] s"
  by (cases s) simp_all

lemma re_search_empty_alt: "re_search [[]] = (\<lambda>s. True)"
  by (rule ext) (simp add: re_search_def)

lemma match_here_Lit: "match_here (map Lit e) s \<longleftrightarrow> prefix e s"
  by (induction e s rule: list_induct2') auto

lemma match_anywhere_Lit: "match_anywhere (map Lit e) s \<longleftrightarrow> sublist e s"
proof (induction s)
  case Nil
  then show ?case by (simp add: match_here_Lit)
next
  case (Cons c s)
  then show ?case by (simp add: match_here_Lit sublist_Cons_right)
qed

lemma re_search_Lit: "re_search (map (map Lit) xs) = (\<lambda>s. \<exists>x\<in>set xs. sublist x s)"
  by (rule ext) (simp add: re_search_def list_ex_iff match_anywhere_Lit)

subsection \<open>\<open>bool_filter\<close>, branch by branch\<close>

lemma bool_filter_ids:
  "bool_filter (Int_series ids) (map_option Int_list docids) False =
     Inr (map (\<lambda>i. Some (case docids of None \<Rightarrow> True | Some xs \<Rightarrow> xs = [] \<or> i \<in> set xs)) ids)"
  by (cases docids) (simp_all add: bool_filter_def)

lemma bool_filter_titles:
  "bool_filter (Str_series cells) (map_option Str_list ts) False =
     Inr (map (\<lambda>c. Some (case ts of None \<Rightarrow> True | Some xs \<Rightarrow> xs = [] \<or> c \<in> Some ` set xs)) cells)"
  by (cases ts) (simp_all add: bool_filter_def)

lemma bool_filter_regex:
  "bool_filter (Str_series cells) (map_option Str_list ex) True =
     (case re_compile (regpat_of ex) of
        Inl e \<Rightarrow> Inl e
      | Inr rx \<Rightarrow> Inr (map (map_option (re_search rx)) cells))"
  by (cases ex) (simp_all add: bool_filter_def regpat_of_def str_contains_def replace_def)


subsection \<open>\<open>filtered_selection\<close>, row by row\<close>

lemma filtered_selection_rows:
  assumes "filtered_selection meta_df docids categories titles authors_sel from_year to_year
             languages publishers places = Inr r"
  shows "r = (if filter (row_selected docids categories titles authors_sel from_year to_year
                languages) meta_df = []
              then meta_df
              else filter (row_selected docids categories titles authors_sel from_year to_year
                languages) meta_df)"
proof -
  obtain rxc where c: "re_compile (regpat_of categories) = Inr rxc"
    using assms
    by (auto simp: filtered_selection_def bool_filter_regex bool_filter_ids split: sum.splits)
  obtain rxa where a: "re_compile (regpat_of authors_sel) = Inr rxa"
    using assms
    by (auto simp: filtered_selection_def bool_filter_regex bool_filter_ids split: sum.splits)
  obtain rxl where l: "re_compile (regpat_of languages) = Inr rxl"
    using assms
    by (auto simp: filtered_selection_def bool_filter_regex bool_filter_ids bool_filter_titles
          split: sum.splits)
  let ?P = "\<lambda>r. and_na (and_na (and_na (and_na (and_na
               (Some (case docids of None \<Rightarrow> True | Some xs \<Rightarrow> xs = [] \<or> dhlabid r \<in> set xs))
               (map_option (re_search rxc) (category r)))
               (map_option (re_search rxa) (authors r)))
               (Some (case titles of None \<Rightarrow> True | Some xs \<Rightarrow> xs = [] \<or> title r \<in> Some ` set xs)))
               (map_option (re_search rxl) (langs r)))
               (Some (from_year \<le> year r \<and> year r \<le> to_year))"
  have sel: "\<And>r. row_selected docids categories titles authors_sel from_year to_year languages r
                \<longleftrightarrow> ?P r = Some True"
    by (simp add: row_selected_def bool_filter_ids bool_filter_titles bool_filter_regex c a l
          period_eq and_na_True)
  have "select (mask_and (mask_and (mask_and (mask_and (mask_and
            (map (\<lambda>i. Some (case docids of None \<Rightarrow> True | Some xs \<Rightarrow> xs = [] \<or> i \<in> set xs))
               (map dhlabid meta_df))
            (map (map_option (re_search rxc)) (map category meta_df)))
            (map (map_option (re_search rxa)) (map authors meta_df)))
            (map (\<lambda>c. Some (case titles of None \<Rightarrow> True | Some xs \<Rightarrow> xs = [] \<or> c \<in> Some ` set xs))
               (map title meta_df)))
            (map (map_option (re_search rxl)) (map langs meta_df)))
            (period from_year to_year (map year meta_df))) meta_df
        = filter (row_selected docids categories titles authors_sel from_year to_year languages)
            meta_df"
    unfolding sel period_eq
    by (simp add: o_def mask_and_map select_map)
  then show ?thesis
    using assms
    by (auto simp: filtered_selection_def bool_filter_regex bool_filter_ids bool_filter_titles
          c a l Let_def)
qed

lemma filtered_selection_returns:
  assumes "re_compile (regpat_of categories) = Inr rxc"
    and "re_compile (regpat_of authors_sel) = Inr rxa"
    and "re_compile (regpat_of languages) = Inr rxl"
  shows "\<exists>r. filtered_selection meta_df docids categories titles authors_sel from_year to_year
           languages publishers places = Inr r"
  using assms
  by (simp add: filtered_selection_def bool_filter_regex bool_filter_ids bool_filter_titles Let_def)

lemma compiles_when_plain:
  assumes "examples = None \<or> (\<exists>xs. examples = Some xs \<and> plain_values xs)"
  shows "\<exists>rx. re_compile (regpat_of examples) = Inr rx"
proof (cases "absent examples")
  case True
  then show ?thesis by (simp add: regpat_of_absent re_compile_empty)
next
  case False
  then obtain xs where "examples = Some xs" "xs \<noteq> []" "plain_values xs"
    using assms by (auto simp: absent_def)
  then show ?thesis using re_compile_plain by blast
qed

text \<open>
  Whenever the values asked for in the three pattern columns are plain,
  \<open>filtered_selection\<close> returns, and what it returns from a table with rows has rows.
\<close>

lemma filtered_selection_plain_nonempty:
  assumes "categories = None \<or> (\<exists>xs. categories = Some xs \<and> plain_values xs)"
    and "authors_sel = None \<or> (\<exists>xs. authors_sel = Some xs \<and> plain_values xs)"
    and "languages = None \<or> (\<exists>xs. languages = Some xs \<and> plain_values xs)"
    and "meta_df \<noteq> []"
  shows "\<exists>r. filtered_selection meta_df docids categories titles authors_sel from_year to_year
           languages publishers places = Inr r \<and> r \<noteq> []"
proof -
  obtain rxc where c: "re_compile (regpat_of categories) = Inr rxc"
    using compiles_when_plain[OF assms(1)] ..
  obtain rxa where a: "re_compile (regpat_of authors_sel) = Inr rxa"
    using compiles_when_plain[OF assms(2)] ..
  obtain rxl where l: "re_compile (regpat_of languages) = Inr rxl"
    using compiles_when_plain[OF assms(3)] ..
  obtain r where r: "filtered_selection meta_df docids categories titles authors_sel
      from_year to_year languages publishers places = Inr r"
    using filtered_selection_returns[OF c a l] ..
  have "r \<noteq> []"
    by (subst filtered_selection_rows[OF r]) (simp add: assms(4))
  with r show ?thesis by blast
qed


section \<open>Year window\<close>

text \<open>
  C3. The year predicate of \<open>filtered_selection\<close> holds for a record exactly when
  \<open>from_year \<le> year \<le> to_year\<close>: both bounds are inclusive, so a record whose year is
  \<open>from_year\<close> or \<open>to_year\<close> itself passes whenever the other bound allows it.
\<close>

theorem period_inclusive:
  "period from_year to_year years = map (\<lambda>y. Some (from_year \<le> y \<and> y \<le> to_year)) years \<and>
   period y to_year [y] = [Some (y \<le> to_year)] \<and>
   period from_year y [y] = [Some (from_year \<le> y)]"
  by (simp add: period_eq)

theorem period_inclusive_witness:
  "period 1860 1905 [1820, 1850, 1860, 1900, 1905, 1906] =
     [Some False, Some False, Some True, Some True, Some True, Some False]"
  using period_inclusive[of 1860 1905 "[1820, 1850, 1860, 1900, 1905, 1906]" 0] by simp

end
